theory Spec2Isabelle
  imports Main "HOL-Library.Sublist" "HOL-Library.AList"
begin

section \<open>Values, errors and collaborator types\<close>

text \<open>
  The development embeds \<^verbatim>\<open>ncatbot/plugin/base_plugin.py\<close> (class \<^verbatim>\<open>BasePlugin\<close>).
  A resolved path is the list of its components, the root being the empty list
  (\<^verbatim>\<open>Path.parent\<close> is \<open>butlast\<close>). Python objects the class passes around are values
  of \<open>pyval\<close>; \<open>VRef a\<close> is a reference to the loader object stored at address \<open>a\<close>.
\<close>

type_synonym path = "string list"

type_synonym addr = nat

datatype pyval =
    VNone
  | VBool bool
  | VInt int
  | VStr string
  | VList "pyval list"
  | VDict "(string \<times> pyval) list"
  | VRef addr

text \<open>A callable is opaque to the class: it is stored, never called. It is identified by its name.\<close>

datatype callable = Callable string

datatype permission_group = USER | ADMIN

text \<open>
  The class raises \<^verbatim>\<open>ValueError\<close> with four different messages; the messages are not
  ASCII, so each is a constructor:
  \<^item> \<open>MissingName\<close>: line 146, the plugin name is missing (the spec's IdentityError);
  \<^item> \<open>MissingVersion\<close>: line 148, the plugin version is missing (IdentityError);
  \<^item> \<open>NeedFilter\<close>: lines 283 and 302, an ordinary function needs at least one filter
    (the spec's ValidationError);
  \<^item> \<open>FuncExists plugin func\<close>: line 271, the plugin already has a function of that name
    (the spec's DuplicateNameError).
\<close>

datatype value_error = MissingName | MissingVersion | NeedFilter | FuncExists string string

datatype error =
    ValueError value_error
  | PluginLoadError string path
  | RuntimeError string error
  | FileTypeUnknownError
  | LoadError
  | SaveError
  | FileNotFoundError
  | AttributeError
  | NotADirectoryError
  | IsADirectoryError
  | FileExistsError
  | HookError string

text \<open>
  \<^verbatim>\<open>Func\<close> and \<^verbatim>\<open>Conf\<close> come from \<^verbatim>\<open>ncatbot.plugin.event\<close>; only their constructor
  calls are in the class (lines 260-268 and 332), and the fields below are the arguments of
  those calls, in order. \<^verbatim>\<open>Conf\<close> receives the plugin object itself; the model keeps the
  owner's name.
\<close>

record func =
  func_name :: string
  plugin_name :: string
  handler :: callable
  filter' :: "callable option"
  raw_message_filter :: "string option"
  permission :: permission_group
  permission_raise :: bool

record conf =
  conf_plugin :: string
  conf_key :: string
  rptr :: "callable option"
  conf_default :: pyval

section \<open>The plugin object\<close>

text \<open>
  The fields are the attributes the class declares or assigns. \<open>debug\<close> is \<^verbatim>\<open>_debug\<close>,
  read through the property of line 190; \<open>work_path\<close> and \<open>data_path\<close> are
  \<^verbatim>\<open>_work_path\<close> and \<^verbatim>\<open>_data_path\<close>; \<open>attrs\<close> holds the extra keyword arguments that
  line 154 turns into attributes. \<open>funcs\<close> and \<open>configs\<close> are used by the class and
  initialised outside it.
\<close>

record plugin =
  name :: string
  version :: string
  dependencies :: "(string \<times> string) list"
  author :: string
  info :: string
  save_type :: string
  this_file_path :: path
  self_path :: path
  debug :: bool
  event_handlers :: "nat list"
  work_path :: path
  data_path :: path
  first_load :: bool
  data :: pyval
  funcs :: "func list"
  configs :: "conf list"
  attrs :: "(string \<times> pyval) list"

section \<open>Function and config registries (lines 248-332)\<close>

text \<open>
  Every method returns the exception it raised, if any, and the plugin as the call left it.
  \<open>register_func\<close> is \<^verbatim>\<open>_register_func\<close>.
\<close>

definition register_func ::
  "plugin \<Rightarrow> string \<Rightarrow> callable \<Rightarrow> callable option \<Rightarrow> string option \<Rightarrow>
   permission_group \<Rightarrow> bool \<Rightarrow> error option \<times> plugin" where
  "register_func p nm h flt raw perm praise =
     (if list_all (\<lambda>var. nm \<noteq> func_name var) (funcs p)
      then (None, p\<lparr>funcs := funcs p @
              [\<lparr>func_name = nm, plugin_name = name p, handler = h, filter' = flt,
                raw_message_filter = raw, permission = perm, permission_raise = praise\<rparr>]\<rparr>)
      else (Some (ValueError (FuncExists (name p) nm)), p))"

definition register_user_func ::
  "plugin \<Rightarrow> string \<Rightarrow> callable \<Rightarrow> callable option \<Rightarrow> string option \<Rightarrow> bool \<Rightarrow>
   error option \<times> plugin" where
  "register_user_func p nm h flt raw praise =
     (if flt = None \<and> raw = None then (Some (ValueError NeedFilter), p)
      else register_func p nm h flt raw USER praise)"

definition register_admin_func ::
  "plugin \<Rightarrow> string \<Rightarrow> callable \<Rightarrow> callable option \<Rightarrow> string option \<Rightarrow> bool \<Rightarrow>
   error option \<times> plugin" where
  "register_admin_func p nm h flt raw praise =
     (if flt = None \<and> raw = None then (Some (ValueError NeedFilter), p)
      else register_func p nm h flt raw ADMIN praise)"

definition register_default_func ::
  "plugin \<Rightarrow> callable \<Rightarrow> permission_group \<Rightarrow> error option \<times> plugin" where
  "register_default_func p h perm = register_func p ''default'' h None None perm False"

definition register_config ::
  "plugin \<Rightarrow> string \<Rightarrow> pyval \<Rightarrow> callable option \<Rightarrow> error option \<times> plugin" where
  "register_config p k dflt r =
     (None, p\<lparr>configs := configs p @
        [\<lparr>conf_plugin = name p, conf_key = k, rptr = r, conf_default = dflt\<rparr>]\<rparr>)"

section \<open>The file system\<close>

text \<open>
  The file system is what the class observes of it: which paths exist, and whether as a
  directory or as a file with its content. \<open>path_name\<close> is \<^verbatim>\<open>Path.name\<close> (empty for the
  root) and \<open>path_join\<close> is \<^verbatim>\<open>/\<close> (joining the empty name changes nothing).
\<close>

datatype node = Dir | File string

type_synonym filesystem = "path \<Rightarrow> node option"

definition exists_path :: "filesystem \<Rightarrow> path \<Rightarrow> bool" where
  "exists_path f p = (f p \<noteq> None)"

definition is_dir :: "filesystem \<Rightarrow> path \<Rightarrow> bool" where
  "is_dir f p = (f p = Some Dir)"

definition path_name :: "path \<Rightarrow> string" where
  "path_name p = (if p = [] then [] else last p)"

definition path_join :: "path \<Rightarrow> string \<Rightarrow> path" where
  "path_join p c = (if c = [] then p else p @ [c])"

text \<open>The parent of a path is a directory: the root is one, any other path if the map says so.\<close>

definition parent_is_dir :: "filesystem \<Rightarrow> path \<Rightarrow> bool" where
  "parent_is_dir f p = (butlast p = [] \<or> f (butlast p) = Some Dir)"

text \<open>
  \<^verbatim>\<open>Path.mkdir(parents=True)\<close>: the missing ancestors are created from the top, an ancestor
  that is a file fails the call, and so does a path that exists already
  (\<^verbatim>\<open>exist_ok\<close> is false).
\<close>

fun mk_dirs :: "filesystem \<Rightarrow> path list \<Rightarrow> error option \<times> filesystem" where
  "mk_dirs f [] = (None, f)"
| "mk_dirs f (d # ds) =
     (case f d of
        None \<Rightarrow> mk_dirs (f(d \<mapsto> Dir)) ds
      | Some Dir \<Rightarrow> mk_dirs f ds
      | Some (File c) \<Rightarrow> (Some NotADirectoryError, f))"

definition mkdir_parents :: "filesystem \<Rightarrow> path \<Rightarrow> error option \<times> filesystem" where
  "mkdir_parents f p =
     (if f p \<noteq> None then (Some FileExistsError, f)
      else case mk_dirs f (butlast (tl (prefixes p))) of
             (None, f') \<Rightarrow> (None, f'(p \<mapsto> Dir))
           | (Some e, f') \<Rightarrow> (Some e, f'))"

text \<open>\<^verbatim>\<open>open(p, "w").write("")\<close>: the file at \<open>p\<close> is created or truncated.\<close>

definition open_w_empty :: "filesystem \<Rightarrow> path \<Rightarrow> error option \<times> filesystem" where
  "open_w_empty f p =
     (case f p of
        Some Dir \<Rightarrow> (Some IsADirectoryError, f)
      | _ \<Rightarrow> if parent_is_dir f p then (None, f(p \<mapsto> File [])) else (Some FileNotFoundError, f))"

section \<open>The persistence loader\<close>

text \<open>
  What the class takes from its surroundings: the constant \<^verbatim>\<open>PERSISTENT_DIR\<close> (resolved),
  the formats the persistence engine knows with their serialiser and parser, and
  \<^verbatim>\<open>visualize_tree\<close>.
\<close>

record env =
  persistent_dir :: path
  known_type :: "string \<Rightarrow> bool"
  encode :: "string \<Rightarrow> pyval \<Rightarrow> string option"
  decode :: "string \<Rightarrow> string \<Rightarrow> pyval option"
  visualize_tree :: "pyval \<Rightarrow> string list"

record loader =
  file_path :: path
  file_type :: string
  ldata :: pyval

text \<open>
  Modelled from the spec: \<^verbatim>\<open>UniversalLoader\<close> (\<^verbatim>\<open>ncatbot.utils.io\<close>) is not among the
  sources; the class calls its constructor with the data path and the save type (lines 185
  and 232). The spec's recovery re-saves "the (empty) in-memory tree" of a loader that has
  read nothing: a new loader holds the empty tree. \<open>ldata\<close> is the loader's attribute
  \<^verbatim>\<open>data\<close>.
\<close>

definition new_loader :: "path \<Rightarrow> string \<Rightarrow> loader" where
  "new_loader pth ty = \<lparr>file_path = pth, file_type = ty, ldata = VDict []\<rparr>"

text \<open>
  Modelled from the spec: \<^verbatim>\<open>UniversalLoader.load\<close> is not among the sources. The spec's
  persistence engine is \<open>load(path, format) \<rightarrow> tree\<close>, "raising distinguished error kinds
  for unknown-format, load failure, save failure, missing file"; \<open>load\<close> "reads the
  persisted store at the resolved data path into an in-memory keyed tree", and a read that
  fails leaves the data "whatever it was in memory".
\<close>

definition loader_load :: "env \<Rightarrow> filesystem \<Rightarrow> loader \<Rightarrow> error option \<times> loader" where
  "loader_load E f l =
     (if \<not> known_type E (file_type l) then (Some FileTypeUnknownError, l)
      else case f (file_path l) of
             None \<Rightarrow> (Some FileNotFoundError, l)
           | Some Dir \<Rightarrow> (Some LoadError, l)
           | Some (File c) \<Rightarrow>
               (case decode E (file_type l) c of
                  None \<Rightarrow> (Some LoadError, l)
                | Some t \<Rightarrow> (None, l\<lparr>ldata := t\<rparr>)))"

text \<open>
  Modelled from the spec: \<^verbatim>\<open>UniversalLoader.save\<close> is not among the sources. The spec's
  \<open>save\<close> "serializes the in-memory tree to the data path" and "fails with a wrapped
  I/O/format error if the write cannot complete"; line 218 of the class names the errors a
  save can raise: unknown format, save failure, missing file.
\<close>

definition loader_save :: "env \<Rightarrow> filesystem \<Rightarrow> loader \<Rightarrow> error option \<times> filesystem" where
  "loader_save E f l =
     (if \<not> known_type E (file_type l) then (Some FileTypeUnknownError, f)
      else case encode E (file_type l) (ldata l) of
             None \<Rightarrow> (Some SaveError, f)
           | Some c \<Rightarrow>
               (if f (file_path l) = Some Dir then (Some SaveError, f)
                else if parent_is_dir f (file_path l)
                     then (None, f(file_path l \<mapsto> File c))
                     else (Some FileNotFoundError, f)))"

section \<open>The world around a plugin\<close>

text \<open>
  The loader objects live in a store, addressed by their index; \<open>bus\<close> is the event bus's
  dispatch index. A method of the class transforms the pair of the plugin and the world and
  returns the exception it raised, if any.
\<close>

record world =
  heap :: "loader list"
  fs :: filesystem
  bus :: "func list"

type_synonym state = "plugin \<times> world"

text \<open>
  The object \<^verbatim>\<open>self.data\<close> when it is a loader. A dict, a list or any other value has
  none of the loader's attributes: a method call on it raises \<^verbatim>\<open>AttributeError\<close>.
\<close>

definition deref :: "world \<Rightarrow> pyval \<Rightarrow> loader option" where
  "deref w v =
     (case v of
        VRef a \<Rightarrow> if a < length (heap w) then Some (heap w ! a) else None
      | _ \<Rightarrow> None)"

definition alloc :: "world \<Rightarrow> loader \<Rightarrow> addr \<times> world" where
  "alloc w l = (length (heap w), w\<lparr>heap := heap w @ [l]\<rparr>)"

text \<open>\<^verbatim>\<open>self.data.load()\<close> and \<^verbatim>\<open>self.data.save()\<close>.\<close>

definition data_load :: "env \<Rightarrow> plugin \<Rightarrow> world \<Rightarrow> error option \<times> world" where
  "data_load E p w =
     (case data p of
        VRef a \<Rightarrow>
          (if a < length (heap w)
           then (case loader_load E (fs w) (heap w ! a) of
                   (e, l') \<Rightarrow> (e, w\<lparr>heap := (heap w)[a := l']\<rparr>))
           else (Some AttributeError, w))
      | _ \<Rightarrow> (Some AttributeError, w))"

definition data_save :: "env \<Rightarrow> plugin \<Rightarrow> world \<Rightarrow> error option \<times> world" where
  "data_save E p w =
     (case deref w (data p) of
        None \<Rightarrow> (Some AttributeError, w)
      | Some l \<Rightarrow> (case loader_save E (fs w) l of (e, f') \<Rightarrow> (e, w\<lparr>fs := f'\<rparr>)))"

section \<open>Construction (lines 124-187)\<close>

text \<open>
  What a concrete plugin class declares: \<open>cls_name\<close>, \<open>cls_version\<close> and
  \<open>cls_dependencies\<close> are absent (\<open>None\<close>) unless the subclass gives them;
  \<open>cls_file\<close> is the resolved file of the module that defines the class
  (\<^verbatim>\<open>inspect.getmodule(self.__class__).__file__\<close>).
\<close>

record plugin_class =
  cls_name :: "string option"
  cls_version :: "string option"
  cls_dependencies :: "(string \<times> string) list option"
  cls_author :: string
  cls_info :: string
  cls_save_type :: string
  cls_file :: path
  cls_funcs :: "func list"
  cls_configs :: "conf list"

text \<open>\<^verbatim>\<open>not getattr(self, a, None)\<close> for a string attribute: absent or empty.\<close>

definition missing :: "string option \<Rightarrow> bool" where
  "missing a = (case a of None \<Rightarrow> True | Some s \<Rightarrow> s = [])"

text \<open>
  \<^verbatim>\<open>setattr(self, k, v)\<close> of line 154. A string given for one of the string attributes
  the class declares replaces it; anything else is kept as an attribute of its own. The
  constructor assigns every other attribute it reads after the loop itself. A keyword that
  gives a non-string for a string attribute, or replaces \<^verbatim>\<open>dependencies\<close>, \<^verbatim>\<open>funcs\<close> or
  \<^verbatim>\<open>configs\<close>, is outside the model.
\<close>

definition setattr :: "plugin \<Rightarrow> string \<Rightarrow> pyval \<Rightarrow> plugin" where
  "setattr p k v =
     (case v of
        VStr s \<Rightarrow>
          (if k = ''name'' then p\<lparr>name := s\<rparr>
           else if k = ''version'' then p\<lparr>version := s\<rparr>
           else if k = ''author'' then p\<lparr>author := s\<rparr>
           else if k = ''info'' then p\<lparr>info := s\<rparr>
           else if k = ''save_type'' then p\<lparr>save_type := s\<rparr>
           else p\<lparr>attrs := AList.update k v (attrs p)\<rparr>)
      | _ \<Rightarrow> p\<lparr>attrs := AList.update k v (attrs p)\<rparr>)"

text \<open>Lines 182-187: the working directory must be a directory; then the loader is created.\<close>

definition finish_init :: "plugin \<Rightarrow> world \<Rightarrow> (error + plugin) \<times> world" where
  "finish_init p w =
     (if \<not> is_dir (fs w) (work_path p)
      then (Inl (PluginLoadError (name p) (work_path p)), w)
      else case alloc w (new_loader (data_path p) (save_type p)) of
             (a, w') \<Rightarrow> (Inr (p\<lparr>data := VRef a\<rparr>), w'))"

text \<open>
  \<^verbatim>\<open>__init__\<close>. A failed construction returns the exception and no plugin. The event bus
  and the scheduler are only stored, so they are not arguments here.
\<close>

definition construct ::
  "env \<Rightarrow> plugin_class \<Rightarrow> bool \<Rightarrow> (string \<times> pyval) list \<Rightarrow> world \<Rightarrow> (error + plugin) \<times> world" where
  "construct E cls dbg kwd w =
     (if missing (cls_name cls) then (Inl (ValueError MissingName), w)
      else if missing (cls_version cls) then (Inl (ValueError MissingVersion), w)
      else
        let p0 = \<lparr>name = (case cls_name cls of Some s \<Rightarrow> s | None \<Rightarrow> []),
                  version = (case cls_version cls of Some s \<Rightarrow> s | None \<Rightarrow> []),
                  dependencies = (case cls_dependencies cls of Some d \<Rightarrow> d | None \<Rightarrow> []),
                  author = cls_author cls, info = cls_info cls, save_type = cls_save_type cls,
                  this_file_path = [], self_path = [], debug = False, event_handlers = [],
                  work_path = [], data_path = [], first_load = True, data = VNone,
                  funcs = cls_funcs cls, configs = cls_configs cls, attrs = []\<rparr>;
            p1 = fold (\<lambda>(k, v) q. setattr q k v) kwd p0;
            plugin_file = cls_file cls;
            p2 = p1\<lparr>this_file_path := plugin_file, self_path := butlast plugin_file,
                    debug := dbg, event_handlers := []\<rparr>;
            plugin_dir_name = path_name (self_path p2);
            wp = path_join (persistent_dir E) plugin_dir_name;
            dp = path_join wp (plugin_dir_name @ ''.'' @ save_type p2);
            p3 = p2\<lparr>work_path := wp, data_path := dp, first_load := False\<rparr>
        in if \<not> exists_path (fs w) wp
           then (case mkdir_parents (fs w) wp of
                   (Some e, f') \<Rightarrow> (Inl e, w\<lparr>fs := f'\<rparr>)
                 | (None, f') \<Rightarrow> finish_init (p3\<lparr>first_load := True\<rparr>) (w\<lparr>fs := f'\<rparr>))
           else if \<not> exists_path (fs w) dp
           then finish_init (p3\<lparr>first_load := True\<rparr>) w
           else finish_init p3 w)"

section \<open>Loading (lines 221-244)\<close>

text \<open>
  The four hooks a plugin may override: \<open>sync_init\<close> is \<^verbatim>\<open>_init_\<close>, \<open>sync_close\<close> is
  \<^verbatim>\<open>_close_\<close>. A hook is any code: it may change the plugin and the world, and it may
  raise. The close hooks receive the arguments of the unload call. The synchronous hooks run
  in a worker thread that the method awaits, so each step follows the one before.
\<close>

type_synonym call_args = "pyval list \<times> (string \<times> pyval) list"

record hooks =
  sync_init :: "state \<Rightarrow> error option \<times> state"
  on_load :: "state \<Rightarrow> error option \<times> state"
  sync_close :: "call_args \<Rightarrow> state \<Rightarrow> error option \<times> state"
  on_close :: "call_args \<Rightarrow> state \<Rightarrow> error option \<times> state"

text \<open>The hooks of \<^verbatim>\<open>BasePlugin\<close> itself (lines 334-348) do nothing.\<close>

definition base_hooks :: hooks where
  "base_hooks = \<lparr>sync_init = (\<lambda>s. (None, s)), on_load = (\<lambda>s. (None, s)),
                 sync_close = (\<lambda>a s. (None, s)), on_close = (\<lambda>a s. (None, s))\<rparr>"

definition is_dict_or_list :: "pyval \<Rightarrow> bool" where
  "is_dict_or_list v = (case v of VDict d \<Rightarrow> True | VList l \<Rightarrow> True | _ \<Rightarrow> False)"

text \<open>
  Lines 231-233. Line 232 binds \<^verbatim>\<open>self.data\<close> to a new loader; line 233 then reads
  \<^verbatim>\<open>self.data\<close>, which is that loader, and stores it in the loader's own \<^verbatim>\<open>data\<close>.
\<close>

definition rebind_data :: "state \<Rightarrow> state" where
  "rebind_data s =
     (case s of (p, w) \<Rightarrow>
        if is_dict_or_list (data p)
        then (case alloc w (new_loader (data_path p) (save_type p)) of
                (a, w1) \<Rightarrow>
                  let p1 = p\<lparr>data := VRef a\<rparr>
                  in (p1, w1\<lparr>heap := (heap w1)[a := (heap w1 ! a)\<lparr>ldata := data p1\<rparr>]\<rparr>))
        else (p, w))"

definition caught_on_load :: "error \<Rightarrow> bool" where
  "caught_on_load e = (e = FileTypeUnknownError \<or> e = LoadError \<or> e = FileNotFoundError)"

text \<open>Lines 240-242: the recovery, outside debug mode.\<close>

definition recover :: "env \<Rightarrow> state \<Rightarrow> error option \<times> state" where
  "recover E s =
     (case s of (p, w) \<Rightarrow>
        (case open_w_empty (fs w) (data_path p) of
           (Some e1, f1) \<Rightarrow> (Some e1, (p, w\<lparr>fs := f1\<rparr>))
         | (None, f1) \<Rightarrow>
             (case data_save E p (w\<lparr>fs := f1\<rparr>) of
                (Some e2, w2) \<Rightarrow> (Some e2, (p, w2))
              | (None, w2) \<Rightarrow>
                  (case data_load E p w2 of (e3, w3) \<Rightarrow> (e3, (p, w3))))))"

text \<open>Lines 234-242, after the rebinding.\<close>

definition read_or_recover :: "env \<Rightarrow> state \<Rightarrow> error option \<times> state" where
  "read_or_recover E s =
     (case s of (p, w) \<Rightarrow>
        (case data_load E p w of
           (None, w1) \<Rightarrow> (None, (p, w1))
         | (Some e, w1) \<Rightarrow>
             (if caught_on_load e
              then (if debug p then (None, (p, w1)) else recover E (p, w1))
              else (Some e, (p, w1)))))"

definition load_data :: "env \<Rightarrow> state \<Rightarrow> error option \<times> state" where
  "load_data E s = read_or_recover E (rebind_data s)"

text \<open>\<^verbatim>\<open>__onload__\<close>.\<close>

definition onload :: "env \<Rightarrow> hooks \<Rightarrow> state \<Rightarrow> error option \<times> state" where
  "onload E H s =
     (case load_data E s of
        (Some e, s1) \<Rightarrow> (Some e, s1)
      | (None, s1) \<Rightarrow>
          (case sync_init H s1 of
             (Some e, s2) \<Rightarrow> (Some e, s2)
           | (None, s2) \<Rightarrow> on_load H s2))"

section \<open>Unloading (lines 194-219)\<close>

text \<open>
  Modelled from the spec: \<^verbatim>\<open>unregister_handlers\<close> is inherited from
  \<^verbatim>\<open>EventHandlerMixin\<close> (\<^verbatim>\<open>ncatbot.plugin.plugin_mixins\<close>), which is not among the
  sources. The spec's \<open>unregisterAll()\<close> "removes every Func entry owned by this plugin
  from both the local table and the external event bus's dispatch index; safe to call
  multiple times (no-op if already empty)".
\<close>

definition unregister_handlers :: "state \<Rightarrow> state" where
  "unregister_handlers s =
     (case s of (p, w) \<Rightarrow>
        (p\<lparr>funcs := []\<rparr>, w\<lparr>bus := filter (\<lambda>f. plugin_name f \<noteq> name p) (bus w)\<rparr>))"

text \<open>
  What an observer of one unload call sees, in order: the unregistration, the entry into
  each close hook with the Func table the hook finds, and then either the call of
  \<^verbatim>\<open>self.data.save()\<close> or the tree view printed in debug mode (the plugin's name and the
  lines of \<^verbatim>\<open>visualize_tree\<close>).
\<close>

datatype step =
    Unregister
  | SyncClose "func list"
  | AsyncClose "func list"
  | Save
  | TreeView string "string list"

definition caught_on_save :: "error \<Rightarrow> bool" where
  "caught_on_save e = (e = FileTypeUnknownError \<or> e = SaveError \<or> e = FileNotFoundError)"

text \<open>Lines 206-219: the persistence step.\<close>

definition persist :: "env \<Rightarrow> state \<Rightarrow> step list \<times> error option \<times> state" where
  "persist E s =
     (case s of (p, w) \<Rightarrow>
        if debug p
        then (case deref w (data p) of
                None \<Rightarrow> ([], Some AttributeError, s)
              | Some l \<Rightarrow> ([TreeView (name p) (visualize_tree E (ldata l))], None, s))
        else (case deref w (data p) of
                None \<Rightarrow> ([], Some AttributeError, s)
              | Some l \<Rightarrow>
                  (case data_save E p w of
                     (None, w1) \<Rightarrow> ([Save], None, (p, w1))
                   | (Some e, w1) \<Rightarrow>
                       ([Save],
                        Some (if caught_on_save e then RuntimeError (name p) e else e),
                        (p, w1)))))"

text \<open>\<^verbatim>\<open>__unload__\<close>.\<close>

definition unload :: "env \<Rightarrow> hooks \<Rightarrow> call_args \<Rightarrow> state \<Rightarrow> step list \<times> error option \<times> state" where
  "unload E H a s =
     (let s1 = unregister_handlers s in
      case sync_close H a s1 of
        (Some e, s2) \<Rightarrow> ([Unregister, SyncClose (funcs (fst s1))], Some e, s2)
      | (None, s2) \<Rightarrow>
          (case on_close H a s2 of
             (Some e, s3) \<Rightarrow>
               ([Unregister, SyncClose (funcs (fst s1)), AsyncClose (funcs (fst s2))], Some e, s3)
           | (None, s3) \<Rightarrow>
               (case persist E s3 of
                  (tr, r) \<Rightarrow>
                    ([Unregister, SyncClose (funcs (fst s1)), AsyncClose (funcs (fst s2))] @ tr, r))))"

section \<open>Concrete instances\<close>

text \<open>
  A small persistence engine that knows the format \<open>json\<close> and two documents, the empty
  tree and a tree with one key; a plugin class \<open>Echo\<close> in the source directory \<open>demo\<close>;
  the plugin that constructing it yields; and a Func entry.
\<close>

definition demo_env :: env where
  "demo_env = \<lparr>persistent_dir = [''data''],
               known_type = (\<lambda>t. t = ''json''),
               encode = (\<lambda>t v. if v = VDict [] then Some ''{}''
                               else if v = VDict [(''k'', VInt 1)] then Some ''{k: 1}'' else None),
               decode = (\<lambda>t c. if c = ''{}'' then Some (VDict [])
                               else if c = ''{k: 1}'' then Some (VDict [(''k'', VInt 1)]) else None),
               visualize_tree = (\<lambda>v. [])\<rparr>"

definition demo_class :: plugin_class where
  "demo_class = \<lparr>cls_name = Some ''Echo'', cls_version = Some ''1.0'', cls_dependencies = None,
                 cls_author = ''Unknown'', cls_info = [], cls_save_type = ''json'',
                 cls_file = [''plugins'', ''demo'', ''main.py''], cls_funcs = [], cls_configs = []\<rparr>"

definition empty_world :: world where
  "empty_world = \<lparr>heap = [], fs = Map.empty, bus = []\<rparr>"

definition demo_plugin :: plugin where
  "demo_plugin = \<lparr>name = ''Echo'', version = ''1.0'', dependencies = [],
        author = ''Unknown'', info = [], save_type = ''json'',
        this_file_path = [''plugins'', ''demo'', ''main.py''],
        self_path = [''plugins'', ''demo''], debug = False,
        event_handlers = [], work_path = [''data'', ''demo''],
        data_path = [''data'', ''demo'', ''demo.json''], first_load = True,
        data = VRef 0, funcs = [], configs = [], attrs = []\<rparr>"

definition ping :: func where
  "ping = \<lparr>func_name = ''ping'', plugin_name = ''Echo'', handler = Callable ''on_ping'',
            filter' = None, raw_message_filter = Some ''ping'', permission = ADMIN,
            permission_raise = False\<rparr>"

text \<open>
  The world the construction of \<open>Echo\<close> leaves behind when it starts from nothing, and the
  same world once the data file has been written.
\<close>

definition demo_loader :: loader where
  "demo_loader = \<lparr>file_path = [''data'', ''demo'', ''demo.json''], file_type = ''json'',
                   ldata = VDict []\<rparr>"

definition fresh_world :: world where
  "fresh_world = \<lparr>heap = [demo_loader],
                   fs = [[''data''] \<mapsto> Dir, [''data'', ''demo''] \<mapsto> Dir],
                   bus = []\<rparr>"

definition used_world :: world where
  "used_world = \<lparr>heap = [],
                  fs = [[''data''] \<mapsto> Dir, [''data'', ''demo''] \<mapsto> Dir,
                        [''data'', ''demo'', ''demo.json''] \<mapsto> File ''{}''],
                  bus = []\<rparr>"

text \<open>The same class with a save format the engine does not know, and what constructing it yields.\<close>

definition xml_class :: plugin_class where
  "xml_class = demo_class\<lparr>cls_save_type := ''xml''\<rparr>"

definition xml_plugin :: plugin where
  "xml_plugin = demo_plugin\<lparr>save_type := ''xml'', data_path := [''data'', ''demo'', ''demo.xml'']\<rparr>"

definition xml_world :: world where
  "xml_world = \<lparr>heap = [\<lparr>file_path = [''data'', ''demo'', ''demo.xml''], file_type = ''xml'',
                          ldata = VDict []\<rparr>],
                 fs = [[''data''] \<mapsto> Dir, [''data'', ''demo''] \<mapsto> Dir],
                 bus = []\<rparr>"

text \<open>
  Instrumented close hooks: each raises when it finds a Func still registered or the data
  file already written, and does nothing otherwise.
\<close>

definition probe_hooks :: hooks where
  "probe_hooks =
     \<lparr>sync_init = (\<lambda>s. (None, s)), on_load = (\<lambda>s. (None, s)),
      sync_close = (\<lambda>a s. if funcs (fst s) = [] \<and> fs (snd s) (data_path (fst s)) = None
                            then (None, s)
                            else (Some (HookError ''torn down too early''), s)),
      on_close = (\<lambda>a s. if funcs (fst s) = [] \<and> fs (snd s) (data_path (fst s)) = None
                          then (None, s)
                          else (Some (HookError ''torn down too early''), s))\<rparr>"

text \<open>
  A plugin whose synchronous close hook registers a Func, as any method of the plugin may,
  and whose asynchronous close hook is the instrumented one.
\<close>

definition late :: func where
  "late = \<lparr>func_name = ''late'', plugin_name = ''Echo'', handler = Callable ''on_late'',
            filter' = None, raw_message_filter = Some ''late'', permission = USER,
            permission_raise = False\<rparr>"

definition registering_hooks :: hooks where
  "registering_hooks =
     \<lparr>sync_init = (\<lambda>s. (None, s)), on_load = (\<lambda>s. (None, s)),
      sync_close = (\<lambda>a s. (None,
        (snd (register_user_func (fst s) ''late'' (Callable ''on_late'') None (Some ''late'') False),
         snd s))),
      on_close = on_close probe_hooks\<rparr>"

text \<open>A plugin whose synchronous close hook raises.\<close>

definition raising_hooks :: hooks where
  "raising_hooks =
     \<lparr>sync_init = (\<lambda>s. (None, s)), on_load = (\<lambda>s. (None, s)),
      sync_close = (\<lambda>a s. (Some (HookError ''close failed''), s)),
      on_close = (\<lambda>a s. (None, s))\<rparr>"

section \<open>The function registry\<close>

lemma fresh_iff: "list_all (\<lambda>var. nm \<noteq> func_name var) xs = (nm \<notin> set (map func_name xs))"
  by (induction xs) auto

text \<open>
  Claim C3, as amended. When a Func of that name is already registered, every further
  registration under the name fails and leaves the plugin, and so its Func table with the
  first registration, as it was. The failure is the duplicate-name error for
  \<^verbatim>\<open>_register_func\<close>, for \<^verbatim>\<open>register_default_func\<close>, and for \<^verbatim>\<open>register_user_func\<close>
  and \<^verbatim>\<open>register_admin_func\<close> called with at least one filter; with no filter these two
  fail with the missing-filter error, before the name is looked at. When the name is fresh,
  \<^verbatim>\<open>_register_func\<close>, \<^verbatim>\<open>register_default_func\<close> and a user or admin registration with a
  filter append exactly one new entry.
\<close>

theorem register_duplicate_amended:
  "(nm \<in> set (map func_name (funcs p)) \<longrightarrow>
      register_func p nm h flt raw perm praise = (Some (ValueError (FuncExists (name p) nm)), p)
    \<and> snd (register_user_func p nm h flt raw praise) = p
    \<and> snd (register_admin_func p nm h flt raw praise) = p
    \<and> fst (register_user_func p nm h flt raw praise) =
        Some (ValueError (if flt = None \<and> raw = None then NeedFilter else FuncExists (name p) nm))
    \<and> fst (register_admin_func p nm h flt raw praise) =
        Some (ValueError (if flt = None \<and> raw = None then NeedFilter else FuncExists (name p) nm)))
   \<and> (''default'' \<in> set (map func_name (funcs p)) \<longrightarrow>
      register_default_func p h perm = (Some (ValueError (FuncExists (name p) ''default'')), p))
   \<and> (nm \<notin> set (map func_name (funcs p)) \<longrightarrow>
      register_func p nm h flt raw perm praise =
        (None, p\<lparr>funcs := funcs p @
           [\<lparr>func_name = nm, plugin_name = name p, handler = h, filter' = flt,
             raw_message_filter = raw, permission = perm, permission_raise = praise\<rparr>]\<rparr>)
    \<and> (flt \<noteq> None \<or> raw \<noteq> None \<longrightarrow>
         register_user_func p nm h flt raw praise = register_func p nm h flt raw USER praise
       \<and> register_admin_func p nm h flt raw praise = register_func p nm h flt raw ADMIN praise))
   \<and> (''default'' \<notin> set (map func_name (funcs p)) \<longrightarrow>
      register_default_func p h perm =
        (None, p\<lparr>funcs := funcs p @
           [\<lparr>func_name = ''default'', plugin_name = name p, handler = h, filter' = None,
             raw_message_filter = None, permission = perm, permission_raise = False\<rparr>]\<rparr>))"
  by (simp add: register_func_def register_user_func_def register_admin_func_def
      register_default_func_def fresh_iff)

text \<open>
  The amended claim at work: with \<open>ping\<close> registered, a second \<open>ping\<close> is refused and
  the plugin is unchanged; \<open>pong\<close> is fresh and is appended after \<open>ping\<close>.
\<close>

theorem register_duplicate_amended_witness:
  "''ping'' \<in> set (map func_name (funcs (demo_plugin\<lparr>funcs := [ping]\<rparr>)))
   \<and> register_func (demo_plugin\<lparr>funcs := [ping]\<rparr>) ''ping'' (Callable ''again'') None (Some ''p'') USER False
       = (Some (ValueError (FuncExists ''Echo'' ''ping'')), demo_plugin\<lparr>funcs := [ping]\<rparr>)
   \<and> ''pong'' \<notin> set (map func_name (funcs (demo_plugin\<lparr>funcs := [ping]\<rparr>)))
   \<and> funcs (snd (register_func (demo_plugin\<lparr>funcs := [ping]\<rparr>) ''pong'' (Callable ''on_pong'') None (Some ''p'') USER False))
       = [ping, \<lparr>func_name = ''pong'', plugin_name = ''Echo'', handler = Callable ''on_pong'', filter' = None,
             raw_message_filter = Some ''p'', permission = USER, permission_raise = False\<rparr>]"
  using register_duplicate_amended [where nm="''ping''" and p="demo_plugin\<lparr>funcs := [ping]\<rparr>"
      and h="Callable ''again''" and flt=None and raw="Some ''p''" and perm=USER and praise=False]
    register_duplicate_amended [where nm="''pong''" and p="demo_plugin\<lparr>funcs := [ping]\<rparr>"
      and h="Callable ''on_pong''" and flt=None and raw="Some ''p''" and perm=USER and praise=False]
  by (simp add: ping_def demo_plugin_def)

text \<open>
  Claim C3 as first stated fails: with \<open>ping\<close> registered, \<^verbatim>\<open>register_user_func\<close> called
  for \<open>ping\<close> with neither filter raises the missing-filter error of line 283, not the
  duplicate-name error of line 271.
\<close>

theorem register_duplicate_counterexample:
  "''ping'' \<in> set (map func_name (funcs (demo_plugin\<lparr>funcs := [ping]\<rparr>)))
   \<and> fst (register_user_func (demo_plugin\<lparr>funcs := [ping]\<rparr>) ''ping'' (Callable ''again'') None None False)
       = Some (ValueError NeedFilter)
   \<and> fst (register_user_func (demo_plugin\<lparr>funcs := [ping]\<rparr>) ''ping'' (Callable ''again'') None None False)
       \<noteq> Some (ValueError (FuncExists ''Echo'' ''ping''))"
  by (simp add: register_user_func_def ping_def demo_plugin_def)

text \<open>
  Claim C6. \<^verbatim>\<open>register_user_func\<close> and \<^verbatim>\<open>register_admin_func\<close> called with neither
  \<^verbatim>\<open>filter\<close> nor \<^verbatim>\<open>raw_message_filter\<close> fail with the missing-filter error and leave the
  plugin as it was; with at least one of the two and a fresh name they succeed and append the
  entry, in group USER or ADMIN. \<^verbatim>\<open>register_default_func\<close> never raises the missing-filter
  error, and with \<open>default\<close> fresh it registers an entry that has no filter at all.
\<close>

theorem filter_required:
  "register_user_func p nm h None None praise = (Some (ValueError NeedFilter), p)
   \<and> register_admin_func p nm h None None praise = (Some (ValueError NeedFilter), p)
   \<and> ((flt \<noteq> None \<or> raw \<noteq> None) \<and> nm \<notin> set (map func_name (funcs p)) \<longrightarrow>
        register_user_func p nm h flt raw praise =
          (None, p\<lparr>funcs := funcs p @
             [\<lparr>func_name = nm, plugin_name = name p, handler = h, filter' = flt,
               raw_message_filter = raw, permission = USER, permission_raise = praise\<rparr>]\<rparr>)
      \<and> register_admin_func p nm h flt raw praise =
          (None, p\<lparr>funcs := funcs p @
             [\<lparr>func_name = nm, plugin_name = name p, handler = h, filter' = flt,
               raw_message_filter = raw, permission = ADMIN, permission_raise = praise\<rparr>]\<rparr>))
   \<and> fst (register_default_func p h perm) \<noteq> Some (ValueError NeedFilter)
   \<and> (''default'' \<notin> set (map func_name (funcs p)) \<longrightarrow>
        fst (register_default_func p h perm) = None
      \<and> funcs (snd (register_default_func p h perm)) = funcs p @
           [\<lparr>func_name = ''default'', plugin_name = name p, handler = h, filter' = None,
             raw_message_filter = None, permission = perm, permission_raise = False\<rparr>])"
  by (simp add: register_func_def register_user_func_def register_admin_func_def
      register_default_func_def fresh_iff)

theorem filter_required_witness:
  "register_user_func demo_plugin ''ping'' (Callable ''on_ping'') None None False
     = (Some (ValueError NeedFilter), demo_plugin)
   \<and> ''ping'' \<notin> set (map func_name (funcs demo_plugin))
   \<and> register_admin_func demo_plugin ''ping'' (Callable ''on_ping'') None (Some ''ping'') False
     = (None, demo_plugin\<lparr>funcs := [ping]\<rparr>)
   \<and> ''default'' \<notin> set (map func_name (funcs demo_plugin))
   \<and> fst (register_default_func demo_plugin (Callable ''on_ping'') USER) = None"
  using filter_required [where p=demo_plugin and nm="''ping''" and h="Callable ''on_ping''"
      and praise=False and flt=None and raw="Some ''ping''" and perm=USER]
  by (simp add: ping_def demo_plugin_def)

section \<open>The config registry\<close>

text \<open>
  Claim C9. \<^verbatim>\<open>register_config\<close> never raises and never looks at the keys already
  there: each call appends one Conf entry, so the list grows by one, and registering the same
  key twice leaves both entries in the list, in the order of the calls.
\<close>

theorem register_config_appends:
  "fst (register_config p k dflt r) = None
   \<and> configs (snd (register_config p k dflt r)) =
       configs p @ [\<lparr>conf_plugin = name p, conf_key = k, rptr = r, conf_default = dflt\<rparr>]
   \<and> configs (snd (register_config (snd (register_config p k dflt r)) k dflt' r')) =
       configs p @ [\<lparr>conf_plugin = name p, conf_key = k, rptr = r, conf_default = dflt\<rparr>,
                    \<lparr>conf_plugin = name p, conf_key = k, rptr = r', conf_default = dflt'\<rparr>]
   \<and> length (configs (snd (register_config p k dflt r))) = Suc (length (configs p))"
  by (simp add: register_config_def)

section \<open>Construction\<close>

lemma mk_dirs_error: "mk_dirs f ds = (Some e, f') \<Longrightarrow> e = NotADirectoryError"
  by (induction ds arbitrary: f) (auto split: option.splits node.splits)

lemma mkdir_parents_error:
  "mkdir_parents f p = (Some e, f') \<Longrightarrow> e = FileExistsError \<or> e = NotADirectoryError"
  by (auto simp: mkdir_parents_def split: if_splits prod.splits option.splits dest: mk_dirs_error)

lemma finish_init_error:
  "fst (finish_init p w) = Inl e \<Longrightarrow> e = PluginLoadError (name p) (work_path p)"
  by (auto simp: finish_init_def alloc_def split: if_splits)

lemma finish_init_ok:
  "finish_init p w = (Inr q, w') \<Longrightarrow>
     q = p\<lparr>data := VRef (length (heap w))\<rparr> \<and> is_dir (fs w) (work_path p)"
  by (auto simp: finish_init_def alloc_def split: if_splits)

lemma construct_demo:
  "construct demo_env demo_class False [] empty_world = (Inr demo_plugin, fresh_world)"
  by (simp add: construct_def demo_env_def demo_class_def empty_world_def missing_def Let_def
      path_name_def path_join_def exists_path_def mkdir_parents_def finish_init_def is_dir_def
      alloc_def new_loader_def demo_plugin_def fresh_world_def demo_loader_def)

lemma construct_demo_again:
  "construct demo_env demo_class False [] used_world =
     (Inr (demo_plugin\<lparr>first_load := False\<rparr>), used_world\<lparr>heap := [demo_loader]\<rparr>)"
  by (simp add: construct_def demo_env_def demo_class_def used_world_def missing_def Let_def
      path_name_def path_join_def exists_path_def mkdir_parents_def finish_init_def is_dir_def
      alloc_def new_loader_def demo_plugin_def demo_loader_def)

lemma construct_xml:
  "construct demo_env xml_class False [] empty_world = (Inr xml_plugin, xml_world)"
  by (simp add: construct_def demo_env_def demo_class_def xml_class_def empty_world_def
      missing_def Let_def path_name_def path_join_def exists_path_def mkdir_parents_def
      finish_init_def is_dir_def alloc_def new_loader_def demo_plugin_def xml_plugin_def
      xml_world_def)

text \<open>
  Claim C5. When the class declares no name, or an empty one, construction raises the
  missing-name \<^verbatim>\<open>ValueError\<close>; when the name is there and the version is absent or empty,
  it raises the missing-version \<^verbatim>\<open>ValueError\<close>. Either way no plugin is returned, and the
  world is as it was. When both are non-empty, construction raises no \<^verbatim>\<open>ValueError\<close> at
  all.
\<close>

theorem identity_required:
  "(missing (cls_name cls) \<longrightarrow> construct E cls dbg kwd w = (Inl (ValueError MissingName), w))
   \<and> (\<not> missing (cls_name cls) \<and> missing (cls_version cls) \<longrightarrow>
        construct E cls dbg kwd w = (Inl (ValueError MissingVersion), w))
   \<and> (\<not> missing (cls_name cls) \<and> \<not> missing (cls_version cls) \<longrightarrow>
        fst (construct E cls dbg kwd w) \<noteq> Inl (ValueError ve))"
proof (intro conjI impI)
  assume "missing (cls_name cls)"
  then show "construct E cls dbg kwd w = (Inl (ValueError MissingName), w)"
    by (simp add: construct_def)
next
  assume "\<not> missing (cls_name cls) \<and> missing (cls_version cls)"
  then show "construct E cls dbg kwd w = (Inl (ValueError MissingVersion), w)"
    by (simp add: construct_def)
next
  assume ok: "\<not> missing (cls_name cls) \<and> \<not> missing (cls_version cls)"
  show "fst (construct E cls dbg kwd w) \<noteq> Inl (ValueError ve)"
  proof
    assume "fst (construct E cls dbg kwd w) = Inl (ValueError ve)"
    with ok show False
      by (auto simp: construct_def Let_def split: if_splits prod.splits option.splits
          dest: mkdir_parents_error finish_init_error)
  qed
qed

text \<open>
  An absent name, an empty name and an absent version each stop the construction of
  \<open>Echo\<close>; with both declared, it yields the plugin.
\<close>

theorem identity_required_witness:
  "missing (cls_name (demo_class\<lparr>cls_name := None\<rparr>))
   \<and> construct demo_env (demo_class\<lparr>cls_name := None\<rparr>) False [] empty_world
       = (Inl (ValueError MissingName), empty_world)
   \<and> missing (cls_name (demo_class\<lparr>cls_name := Some []\<rparr>))
   \<and> construct demo_env (demo_class\<lparr>cls_name := Some []\<rparr>) False [] empty_world
       = (Inl (ValueError MissingName), empty_world)
   \<and> \<not> missing (cls_name (demo_class\<lparr>cls_version := None\<rparr>))
   \<and> missing (cls_version (demo_class\<lparr>cls_version := None\<rparr>))
   \<and> construct demo_env (demo_class\<lparr>cls_version := None\<rparr>) False [] empty_world
       = (Inl (ValueError MissingVersion), empty_world)
   \<and> \<not> missing (cls_name demo_class) \<and> \<not> missing (cls_version demo_class)
   \<and> fst (construct demo_env demo_class False [] empty_world) \<noteq> Inl (ValueError MissingName)
   \<and> fst (construct demo_env demo_class False [] empty_world) = Inr demo_plugin"
  using identity_required [where cls="demo_class\<lparr>cls_name := None\<rparr>" and E=demo_env
      and dbg=False and kwd="[]" and w=empty_world]
    identity_required [where cls="demo_class\<lparr>cls_name := Some []\<rparr>" and E=demo_env
      and dbg=False and kwd="[]" and w=empty_world]
    identity_required [where cls="demo_class\<lparr>cls_version := None\<rparr>" and E=demo_env
      and dbg=False and kwd="[]" and w=empty_world]
    identity_required [where cls=demo_class and E=demo_env and dbg=False and kwd="[]"
      and w=empty_world and ve=MissingName]
    construct_demo
  by (simp add: missing_def demo_class_def)

section \<open>What no later step touches\<close>

lemma rebind_data_other:
  "\<not> is_dict_or_list (data (fst s)) \<Longrightarrow> rebind_data s = s"
  by (cases s) (simp add: rebind_data_def)

lemma rebind_data_keeps:
  "fs (snd (rebind_data s)) = fs (snd s) \<and> debug (fst (rebind_data s)) = debug (fst s)
   \<and> first_load (fst (rebind_data s)) = first_load (fst s)"
  by (cases s) (simp add: rebind_data_def alloc_def Let_def)

lemma recover_plugin: "fst (snd (recover E s)) = fst s"
  by (cases s) (auto simp: recover_def split: prod.splits option.splits)

lemma read_or_recover_plugin: "fst (snd (read_or_recover E s)) = fst s"
  by (cases s) (auto simp: read_or_recover_def recover_plugin split: prod.splits option.splits)

lemma load_data_plugin: "fst (snd (load_data E s)) = fst (rebind_data s)"
  by (simp add: load_data_def read_or_recover_plugin)

lemma unregister_funcs: "funcs (fst (unregister_handlers s)) = []"
  by (cases s) (simp add: unregister_handlers_def)

lemma unregister_first_load: "first_load (fst (unregister_handlers s)) = first_load (fst s)"
  by (cases s) (simp add: unregister_handlers_def)

lemma persist_plugin: "fst (snd (snd (persist E s))) = fst s"
  by (cases s) (auto simp: persist_def split: option.splits prod.splits)

lemma onload_first_load:
  assumes "\<And>t. first_load (fst (snd (sync_init H t))) = first_load (fst t)"
    and "\<And>t. first_load (fst (snd (on_load H t))) = first_load (fst t)"
  shows "first_load (fst (snd (onload E H s))) = first_load (fst s)"
proof -
  obtain e1 s1 where l: "load_data E s = (e1, s1)" by (cases "load_data E s")
  obtain e2 s2 where i: "sync_init H s1 = (e2, s2)" by (cases "sync_init H s1")
  have f1: "first_load (fst s1) = first_load (fst s)"
    using load_data_plugin [of E s] rebind_data_keeps [of s] l by simp
  have f2: "first_load (fst s2) = first_load (fst s1)"
    using assms(1) [of s1] i by simp
  show ?thesis
    using l i f1 f2 assms(2) [of s2] by (cases e1; cases e2) (simp_all add: onload_def)
qed

lemma unload_first_load:
  assumes "\<And>a t. first_load (fst (snd (sync_close H a t))) = first_load (fst t)"
    and "\<And>a t. first_load (fst (snd (on_close H a t))) = first_load (fst t)"
  shows "first_load (fst (snd (snd (unload E H a s)))) = first_load (fst s)"
proof -
  obtain e2 s2 where c1: "sync_close H a (unregister_handlers s) = (e2, s2)"
    by (cases "sync_close H a (unregister_handlers s)")
  obtain e3 s3 where c2: "on_close H a s2 = (e3, s3)" by (cases "on_close H a s2")
  have f2: "first_load (fst s2) = first_load (fst s)"
    using assms(1) [of a "unregister_handlers s"] c1 unregister_first_load [of s] by simp
  have f3: "first_load (fst s3) = first_load (fst s2)"
    using assms(2) [of a s2] c2 by simp
  show ?thesis
    using c1 c2 f2 f3 persist_plugin [of E s3]
    by (cases e2; cases e3) (auto simp: unload_def Let_def split: prod.splits)
qed

text \<open>
  Claim C4. When construction succeeds, the plugin's working directory is
  \<^verbatim>\<open>PERSISTENT_DIR\<close> joined with the name of the plugin's source directory, and
  \<^verbatim>\<open>first_load\<close> is true exactly when, in the file system as it was before the call,
  nothing existed at the working directory's path or nothing existed at the data file's
  path; it is false when both existed. After construction the flag stays as it is: no
  registration, no step of loading and no step of unloading assigns it, and a whole load or
  unload keeps it whenever the plugin's own hooks do not assign it.
\<close>

theorem first_load_flag:
  "(construct E cls dbg kwd w = (Inr p, w') \<longrightarrow>
      work_path p = path_join (persistent_dir E) (path_name (butlast (cls_file cls)))
    \<and> first_load p =
        (\<not> exists_path (fs w) (work_path p) \<or> \<not> exists_path (fs w) (data_path p)))
   \<and> first_load (snd (register_func q nm h flt raw perm praise)) = first_load q
   \<and> first_load (snd (register_user_func q nm h flt raw praise)) = first_load q
   \<and> first_load (snd (register_admin_func q nm h flt raw praise)) = first_load q
   \<and> first_load (snd (register_default_func q h perm)) = first_load q
   \<and> first_load (snd (register_config q k dflt r)) = first_load q
   \<and> first_load (fst (snd (load_data E s))) = first_load (fst s)
   \<and> first_load (fst (unregister_handlers s)) = first_load (fst s)
   \<and> first_load (fst (snd (snd (persist E s)))) = first_load (fst s)
   \<and> ((\<forall>t. first_load (fst (snd (sync_init H t))) = first_load (fst t))
        \<and> (\<forall>t. first_load (fst (snd (on_load H t))) = first_load (fst t))
       \<longrightarrow> first_load (fst (snd (onload E H s))) = first_load (fst s))
   \<and> ((\<forall>a t. first_load (fst (snd (sync_close H a t))) = first_load (fst t))
        \<and> (\<forall>a t. first_load (fst (snd (on_close H a t))) = first_load (fst t))
       \<longrightarrow> first_load (fst (snd (snd (unload E H a s)))) = first_load (fst s))"
proof -
  have c: "construct E cls dbg kwd w = (Inr p, w') \<longrightarrow>
      work_path p = path_join (persistent_dir E) (path_name (butlast (cls_file cls)))
    \<and> first_load p =
        (\<not> exists_path (fs w) (work_path p) \<or> \<not> exists_path (fs w) (data_path p))"
    by (auto simp: construct_def Let_def split: if_splits prod.splits option.splits
        dest!: finish_init_ok)
  have r: "first_load (snd (register_func q nm h flt raw perm praise)) = first_load q"
    "first_load (snd (register_user_func q nm h flt raw praise)) = first_load q"
    "first_load (snd (register_admin_func q nm h flt raw praise)) = first_load q"
    "first_load (snd (register_default_func q h perm)) = first_load q"
    "first_load (snd (register_config q k dflt r)) = first_load q"
    by (simp_all add: register_func_def register_user_func_def register_admin_func_def
        register_default_func_def register_config_def)
  have l: "first_load (fst (snd (load_data E s))) = first_load (fst s)"
    using load_data_plugin [of E s] rebind_data_keeps [of s] by simp
  have u: "first_load (fst (snd (snd (persist E s)))) = first_load (fst s)"
    using persist_plugin [of E s] by simp
  show ?thesis
    using c r l u unregister_first_load [of s] onload_first_load [of H E s]
      unload_first_load [of H E a s]
    by blast
qed

text \<open>
  The spec's concrete case: from an empty persistent root the flag is true; constructed again
  with the directory and the saved data file in place, it is false; loading and unloading
  with the hooks of \<^verbatim>\<open>BasePlugin\<close> keep it.
\<close>

theorem first_load_flag_witness:
  "construct demo_env demo_class False [] empty_world = (Inr demo_plugin, fresh_world)
   \<and> first_load demo_plugin
   \<and> \<not> exists_path (fs empty_world) (work_path demo_plugin)
   \<and> construct demo_env demo_class False [] used_world
       = (Inr (demo_plugin\<lparr>first_load := False\<rparr>), used_world\<lparr>heap := [demo_loader]\<rparr>)
   \<and> \<not> first_load (demo_plugin\<lparr>first_load := False\<rparr>)
   \<and> exists_path (fs used_world) (work_path demo_plugin)
   \<and> exists_path (fs used_world) (data_path demo_plugin)
   \<and> first_load (fst (snd (onload demo_env base_hooks (demo_plugin, fresh_world))))
   \<and> first_load (fst (snd (snd (unload demo_env base_hooks ([], []) (demo_plugin, fresh_world)))))"
  using first_load_flag [where E=demo_env and cls=demo_class and dbg=False and kwd="[]"
      and w=empty_world and p=demo_plugin and w'=fresh_world and H=base_hooks and a="([], [])"
      and s="(demo_plugin, fresh_world)"]
    first_load_flag [where E=demo_env and cls=demo_class and dbg=False and kwd="[]"
      and w=used_world and p="demo_plugin\<lparr>first_load := False\<rparr>"
      and w'="used_world\<lparr>heap := [demo_loader]\<rparr>"]
    construct_demo construct_demo_again
  by (simp add: base_hooks_def exists_path_def demo_plugin_def used_world_def empty_world_def)

section \<open>Loading\<close>

lemma deref_SomeD:
  "deref w v = Some l \<Longrightarrow> \<exists>a. v = VRef a \<and> a < length (heap w) \<and> heap w ! a = l"
  by (auto simp: deref_def split: pyval.splits if_splits)

lemma loader_load_fails:
  "\<not> known_type E (file_type l) \<or> f (file_path l) = None
     \<or> (\<exists>c. f (file_path l) = Some (File c) \<and> decode E (file_type l) c = None)
   \<Longrightarrow> \<exists>e. loader_load E f l = (Some e, l) \<and> caught_on_load e"
  by (auto simp: loader_load_def caught_on_load_def)

lemma data_load_fails:
  assumes "deref w (data p) = Some l"
    and "\<not> known_type E (file_type l) \<or> fs w (file_path l) = None
     \<or> (\<exists>c. fs w (file_path l) = Some (File c) \<and> decode E (file_type l) c = None)"
  shows "\<exists>e. data_load E p w = (Some e, w) \<and> caught_on_load e"
proof -
  from assms(1) obtain a where a: "data p = VRef a" "a < length (heap w)" "heap w ! a = l"
    by (blast dest: deref_SomeD)
  from loader_load_fails [where f="fs w" and l=l and E=E] assms(2) obtain e
    where e: "loader_load E (fs w) l = (Some e, l)" "caught_on_load e" by blast
  have "data_load E p w = (Some e, w\<lparr>heap := (heap w)[a := heap w ! a]\<rparr>)"
    using a e by (simp add: data_load_def)
  then show ?thesis using e by simp
qed

lemma parent_is_dir_upd:
  "parent_is_dir f p \<Longrightarrow> parent_is_dir (f(p \<mapsto> n)) p"
proof -
  assume a: "parent_is_dir f p"
  have "butlast p = p \<Longrightarrow> p = []"
    by (metis length_butlast diff_less length_greater_0_conv less_irrefl zero_less_one)
  then show ?thesis using a by (auto simp: parent_is_dir_def)
qed

text \<open>
  Claim C8. In debug mode, when the read fails because the format is unknown, the file is
  missing or its content does not parse, \<^verbatim>\<open>__onload__\<close> swallows the failure: the data
  step returns normally, the file system is what it was before the call (no recovery write),
  and the plugin and the loader with its in-memory tree are what they were when the read
  started (the state after lines 231-233, which is the state before the call unless
  \<^verbatim>\<open>self.data\<close> was a plain dict or list). With the hooks of \<^verbatim>\<open>BasePlugin\<close> the whole load
  returns normally in that same state.
\<close>

theorem debug_load_swallows:
  assumes "debug (fst s)"
    and "rebind_data s = (p, w)"
    and "deref w (data p) = Some l"
    and "\<not> known_type E (file_type l) \<or> fs w (file_path l) = None
     \<or> (\<exists>c. fs w (file_path l) = Some (File c) \<and> decode E (file_type l) c = None)"
  shows "load_data E s = (None, (p, w)) \<and> onload E base_hooks s = (None, (p, w))
     \<and> fs w = fs (snd s) \<and> (\<not> is_dict_or_list (data (fst s)) \<longrightarrow> (p, w) = s)"
proof -
  from data_load_fails [OF assms(3,4)] obtain e
    where e: "data_load E p w = (Some e, w)" "caught_on_load e" by blast
  have d: "debug p" using assms(1,2) rebind_data_keeps [of s] by simp
  have l: "load_data E s = (None, (p, w))"
    using e d assms(2) by (simp add: load_data_def read_or_recover_def)
  have o: "onload E base_hooks s = (None, (p, w))"
    using l by (simp add: onload_def base_hooks_def)
  have f: "fs w = fs (snd s)" using assms(2) rebind_data_keeps [of s] by simp
  show ?thesis using l o f assms(2) rebind_data_other [of s] by auto
qed

text \<open>
  \<open>Echo\<close> in debug mode, fresh from construction: the data file is missing, and the load
  returns normally and leaves everything as it was. The same with a data file that does not
  parse.
\<close>

theorem debug_load_swallows_witness:
  "debug (demo_plugin\<lparr>debug := True\<rparr>)
   \<and> fs fresh_world (file_path demo_loader) = None
   \<and> onload demo_env base_hooks (demo_plugin\<lparr>debug := True\<rparr>, fresh_world)
       = (None, (demo_plugin\<lparr>debug := True\<rparr>, fresh_world))
   \<and> decode demo_env (file_type demo_loader) ''{{'' = None
   \<and> onload demo_env base_hooks
        (demo_plugin\<lparr>debug := True\<rparr>,
         fresh_world\<lparr>fs := (fs fresh_world)(file_path demo_loader \<mapsto> File ''{{'')\<rparr>)
       = (None, (demo_plugin\<lparr>debug := True\<rparr>,
                 fresh_world\<lparr>fs := (fs fresh_world)(file_path demo_loader \<mapsto> File ''{{'')\<rparr>))"
  using debug_load_swallows [where s="(demo_plugin\<lparr>debug := True\<rparr>, fresh_world)"
      and p="demo_plugin\<lparr>debug := True\<rparr>" and w=fresh_world and l=demo_loader and E=demo_env]
    debug_load_swallows [where s="(demo_plugin\<lparr>debug := True\<rparr>,
         fresh_world\<lparr>fs := (fs fresh_world)(file_path demo_loader \<mapsto> File ''{{'')\<rparr>)"
      and p="demo_plugin\<lparr>debug := True\<rparr>"
      and w="fresh_world\<lparr>fs := (fs fresh_world)(file_path demo_loader \<mapsto> File ''{{'')\<rparr>"
      and l=demo_loader and E=demo_env]
  by (simp add: rebind_data_def is_dict_or_list_def deref_def demo_plugin_def fresh_world_def
      demo_loader_def demo_env_def)

text \<open>
  Claim C2, as amended. Outside debug mode, for a plugin whose \<^verbatim>\<open>self.data\<close> is its loader
  on the data path, with a save format the engine knows: when the data file is missing or
  does not parse, the data path can be written (its parent is a directory) and the tree in
  memory serialises to a text that parses back to it, then \<^verbatim>\<open>__onload__\<close> does not raise.
  It truncates or creates the file, saves the tree in memory to it and loads it back, so the
  file holds the serialised tree and the tree in memory afterwards is the tree that was in
  memory before the call: the empty tree when nothing had been put in it, as for a loader
  fresh from construction.
\<close>

theorem load_recovers:
  assumes nd: "\<not> debug p"
    and l: "deref w (data p) = Some l"
    and pth: "file_path l = data_path p"
    and known: "known_type E (file_type l)"
    and bad: "fs w (data_path p) = None
       \<or> (\<exists>c. fs w (data_path p) = Some (File c) \<and> decode E (file_type l) c = None)"
    and par: "parent_is_dir (fs w) (data_path p)"
    and enc: "encode E (file_type l) (ldata l) = Some c'"
    and dec: "decode E (file_type l) c' = Some (ldata l)"
  shows "load_data E (p, w) = (None, (p, w\<lparr>fs := (fs w)(data_path p \<mapsto> File c')\<rparr>))
       \<and> onload E base_hooks (p, w) = (None, (p, w\<lparr>fs := (fs w)(data_path p \<mapsto> File c')\<rparr>))
       \<and> deref (w\<lparr>fs := (fs w)(data_path p \<mapsto> File c')\<rparr>) (data p) = Some l
       \<and> (ldata l = VDict [] \<longrightarrow>
            map_option ldata (deref (snd (snd (load_data E (p, w)))) (data p)) = Some (VDict []))"
proof -
  let ?dp = "data_path p"
  let ?f1 = "(fs w)(?dp \<mapsto> File [])"
  let ?f2 = "(fs w)(?dp \<mapsto> File c')"
  from l obtain a where a: "data p = VRef a" "a < length (heap w)" "heap w ! a = l"
    by (blast dest: deref_SomeD)
  have rb: "rebind_data (p, w) = (p, w)"
    using a by (simp add: rebind_data_def is_dict_or_list_def)
  have "\<not> known_type E (file_type l) \<or> fs w (file_path l) = None
     \<or> (\<exists>c. fs w (file_path l) = Some (File c) \<and> decode E (file_type l) c = None)"
    using bad pth by simp
  from data_load_fails [OF l this] obtain e
    where e: "data_load E p w = (Some e, w)" "caught_on_load e" by blast
  have op: "open_w_empty (fs w) ?dp = (None, ?f1)"
    using bad par by (auto simp: open_w_empty_def)
  have l1: "deref (w\<lparr>fs := ?f1\<rparr>) (data p) = Some l"
    using a by (simp add: deref_def)
  have sv: "loader_save E ?f1 l = (None, ?f2)"
    using known enc pth parent_is_dir_upd [OF par, of "File []"]
    by (simp add: loader_save_def)
  have ds: "data_save E p (w\<lparr>fs := ?f1\<rparr>) = (None, w\<lparr>fs := ?f2\<rparr>)"
    using l1 sv by (simp add: data_save_def)
  have ld: "loader_load E ?f2 l = (None, l)"
    using known dec pth by (simp add: loader_load_def)
  have hp: "(heap w)[a := l] = heap w"
    using a(3) list_update_id [of "heap w" a] by simp
  have dl: "data_load E p (w\<lparr>fs := ?f2\<rparr>) = (None, w\<lparr>fs := ?f2\<rparr>)"
    using a ld hp by (simp add: data_load_def)
  have rc: "recover E (p, w) = (None, (p, w\<lparr>fs := ?f2\<rparr>))"
    using op ds dl by (simp add: recover_def)
  have ll: "load_data E (p, w) = (None, (p, w\<lparr>fs := ?f2\<rparr>))"
    using rb e nd rc by (simp add: load_data_def read_or_recover_def)
  have oo: "onload E base_hooks (p, w) = (None, (p, w\<lparr>fs := ?f2\<rparr>))"
    using ll by (simp add: onload_def base_hooks_def)
  have l2: "deref (w\<lparr>fs := ?f2\<rparr>) (data p) = Some l"
    using a by (simp add: deref_def)
  show ?thesis using ll oo l2 by simp
qed

text \<open>
  \<open>Echo\<close> outside debug mode, fresh from construction, with no data file: the load returns
  normally, the data file now holds the serialised empty tree, and the tree in memory is
  empty.
\<close>

theorem load_recovers_witness:
  "\<not> debug demo_plugin
   \<and> deref fresh_world (data demo_plugin) = Some demo_loader
   \<and> fs fresh_world (data_path demo_plugin) = None
   \<and> onload demo_env base_hooks (demo_plugin, fresh_world)
       = (None, (demo_plugin,
                 fresh_world\<lparr>fs := (fs fresh_world)(data_path demo_plugin \<mapsto> File ''{}'')\<rparr>))
   \<and> ldata demo_loader = VDict []"
  using load_recovers [where p=demo_plugin and w=fresh_world and l=demo_loader and E=demo_env
      and c'="''{}''"]
  by (simp add: deref_def parent_is_dir_def demo_plugin_def fresh_world_def demo_loader_def
      demo_env_def)

text \<open>
  Claim C2 as first stated fails twice. A plugin class whose save format the engine does not
  know is constructed without error outside debug mode; its load finds the format unknown,
  truncates the file, and the save of line 241 raises the unknown-format error again, out of
  \<^verbatim>\<open>__onload__\<close>. And when the tree in memory is not empty as the load starts, the
  recovery saves and reloads that tree, so the tree afterwards is not the empty one.
\<close>

theorem load_recovers_counterexample:
  "construct demo_env xml_class False [] empty_world = (Inr xml_plugin, xml_world)
   \<and> \<not> debug xml_plugin
   \<and> \<not> known_type demo_env (save_type xml_plugin)
   \<and> fst (onload demo_env base_hooks (xml_plugin, xml_world)) = Some FileTypeUnknownError
   \<and> \<not> debug demo_plugin
   \<and> fs fresh_world (data_path demo_plugin) = None
   \<and> fst (onload demo_env base_hooks
        (demo_plugin, fresh_world\<lparr>heap := [demo_loader\<lparr>ldata := VDict [(''k'', VInt 1)]\<rparr>]\<rparr>))
       = None
   \<and> map_option ldata
        (deref (snd (snd (onload demo_env base_hooks
           (demo_plugin, fresh_world\<lparr>heap := [demo_loader\<lparr>ldata := VDict [(''k'', VInt 1)]\<rparr>]\<rparr>))))
           (data demo_plugin))
       = Some (VDict [(''k'', VInt 1)])
   \<and> VDict [(''k'', VInt 1)] \<noteq> VDict []"
  using construct_xml
  by (simp add: onload_def load_data_def rebind_data_def is_dict_or_list_def
      read_or_recover_def data_load_def loader_load_def recover_def open_w_empty_def
      parent_is_dir_def data_save_def deref_def loader_save_def caught_on_load_def
      base_hooks_def demo_env_def xml_plugin_def xml_world_def demo_plugin_def fresh_world_def
      demo_loader_def)

text \<open>
  Claim C10. When \<^verbatim>\<open>__onload__\<close> finds a plain dict or list in \<^verbatim>\<open>self.data\<close>, it
  allocates a new loader on the data path, binds \<^verbatim>\<open>self.data\<close> to it, and assigns to the
  loader's own \<^verbatim>\<open>data\<close> attribute the value of \<^verbatim>\<open>self.data\<close> as it is by then: the loader
  itself, not the dict or list. The read of the file starts from that state, and nothing of
  the dict or list is left in it: the load behaves the same for any other dict or list.
\<close>

theorem rebinding_discards:
  assumes "is_dict_or_list (data p)"
  shows "rebind_data (p, w) =
           (p\<lparr>data := VRef (length (heap w))\<rparr>,
            w\<lparr>heap := heap w @ [\<lparr>file_path = data_path p, file_type = save_type p,
                                 ldata = VRef (length (heap w))\<rparr>]\<rparr>)
       \<and> deref (snd (rebind_data (p, w))) (data (fst (rebind_data (p, w)))) =
           Some \<lparr>file_path = data_path p, file_type = save_type p,
                 ldata = data (fst (rebind_data (p, w)))\<rparr>
       \<and> data (fst (rebind_data (p, w))) \<noteq> data p
       \<and> load_data E (p, w) = read_or_recover E (rebind_data (p, w))
       \<and> (is_dict_or_list d \<longrightarrow> load_data E (p\<lparr>data := d\<rparr>, w) = load_data E (p, w))"
proof -
  have rb: "\<And>d. is_dict_or_list d \<Longrightarrow> rebind_data (p\<lparr>data := d\<rparr>, w) =
           (p\<lparr>data := VRef (length (heap w))\<rparr>,
            w\<lparr>heap := heap w @ [\<lparr>file_path = data_path p, file_type = save_type p,
                                 ldata = VRef (length (heap w))\<rparr>]\<rparr>)"
    by (simp add: rebind_data_def alloc_def new_loader_def Let_def)
  have r0: "rebind_data (p, w) =
           (p\<lparr>data := VRef (length (heap w))\<rparr>,
            w\<lparr>heap := heap w @ [\<lparr>file_path = data_path p, file_type = save_type p,
                                 ldata = VRef (length (heap w))\<rparr>]\<rparr>)"
    using rb [OF assms] by simp
  have ne: "VRef (length (heap w)) \<noteq> data p"
    using assms by (cases "data p") (simp_all add: is_dict_or_list_def)
  show ?thesis
    using r0 ne rb by (simp add: deref_def load_data_def)
qed

text \<open>
  \<open>Echo\<close> with a dict holding one key in \<^verbatim>\<open>self.data\<close> and the data file saved earlier:
  the new loader is stored at address 1 and refers to itself, and after the load the tree is
  the file's empty tree; the key of the dict is gone.
\<close>

theorem rebinding_discards_witness:
  "is_dict_or_list (data (demo_plugin\<lparr>data := VDict [(''k'', VInt 1)]\<rparr>))
   \<and> rebind_data (demo_plugin\<lparr>data := VDict [(''k'', VInt 1)]\<rparr>, fresh_world)
       = (demo_plugin\<lparr>data := VRef 1\<rparr>,
          fresh_world\<lparr>heap := [demo_loader, demo_loader\<lparr>ldata := VRef 1\<rparr>]\<rparr>)
   \<and> load_data demo_env
        (demo_plugin\<lparr>data := VDict [(''k'', VInt 1)]\<rparr>, used_world\<lparr>heap := [demo_loader]\<rparr>)
       = (None, (demo_plugin\<lparr>data := VRef 1\<rparr>,
                 used_world\<lparr>heap := [demo_loader, demo_loader]\<rparr>))"
  using rebinding_discards [where p="demo_plugin\<lparr>data := VDict [(''k'', VInt 1)]\<rparr>"
      and w=fresh_world and E=demo_env]
    rebinding_discards [where p="demo_plugin\<lparr>data := VDict [(''k'', VInt 1)]\<rparr>"
      and w="used_world\<lparr>heap := [demo_loader]\<rparr>" and E=demo_env]
  by (simp add: is_dict_or_list_def read_or_recover_def data_load_def loader_load_def
      demo_plugin_def fresh_world_def used_world_def demo_loader_def demo_env_def)

section \<open>Unloading\<close>

lemma persist_steps:
  "fst (persist E s) = [] \<or> fst (persist E s) = [Save]
   \<or> (\<exists>n ls. fst (persist E s) = [TreeView n ls])"
  by (cases s) (auto simp: persist_def split: option.splits prod.splits)

lemma persist_save_only_outside_debug: "Save \<in> set (fst (persist E s)) \<Longrightarrow> \<not> debug (fst s)"
  by (cases s) (auto simp: persist_def split: option.splits prod.splits if_splits)

lemma persist_no_loader:
  "deref (snd t) (data (fst t)) = None \<Longrightarrow> persist E t = ([], Some AttributeError, t)"
  by (cases t) (simp add: persist_def)

lemma persist_debug:
  "deref (snd t) (data (fst t)) = Some l \<Longrightarrow> debug (fst t) \<Longrightarrow>
     persist E t = ([TreeView (name (fst t)) (visualize_tree E (ldata l))], None, t)"
  by (cases t) (simp add: persist_def)

lemma persist_save:
  "deref (snd t) (data (fst t)) = Some l \<Longrightarrow> \<not> debug (fst t) \<Longrightarrow>
     persist E t =
       ([Save],
        (case fst (loader_save E (fs (snd t)) l) of
           None \<Rightarrow> None
         | Some e \<Rightarrow> Some (if caught_on_save e then RuntimeError (name (fst t)) e else e)),
        (fst t, (snd t)\<lparr>fs := snd (loader_save E (fs (snd t)) l)\<rparr>))"
  by (cases t; cases "loader_save E (fs (snd t)) l"; cases "fst (loader_save E (fs (snd t)) l)")
     (simp_all add: persist_def data_save_def)

lemma unload_sync_raises:
  "sync_close H a (unregister_handlers s) = (Some e, s2) \<Longrightarrow>
     unload E H a s = ([Unregister, SyncClose []], Some e, s2)"
  by (simp add: unload_def Let_def unregister_funcs)

lemma unload_async_raises:
  "sync_close H a (unregister_handlers s) = (None, s2) \<Longrightarrow> on_close H a s2 = (Some e, s3) \<Longrightarrow>
     unload E H a s = ([Unregister, SyncClose [], AsyncClose (funcs (fst s2))], Some e, s3)"
  by (simp add: unload_def Let_def unregister_funcs)

lemma unload_returns:
  "sync_close H a (unregister_handlers s) = (None, s2) \<Longrightarrow> on_close H a s2 = (None, s3) \<Longrightarrow>
     unload E H a s =
       ([Unregister, SyncClose [], AsyncClose (funcs (fst s2))] @ fst (persist E s3),
        snd (persist E s3))"
  by (simp add: unload_def Let_def unregister_funcs split: prod.splits)

text \<open>
  Claim C1, as amended. Every unload call runs its steps in one order, each on the state the
  step before left. The unregistration comes first: it empties the plugin's Func table and
  removes the plugin's entries from the bus, and touches neither the file system nor the
  loaders. The synchronous close hook runs on that state, so it finds the Func table empty.
  If it raises, the call ends there with its exception and its state. Otherwise the
  asynchronous close hook runs on the state the synchronous hook returned, so it finds the
  Func table as that hook left it; if it raises, the call ends there. Only when both hooks
  have returned does the persistence step run, on the state the asynchronous hook returned:
  the tree view in debug mode, which changes nothing, or the save, which writes the file;
  with no loader in \<^verbatim>\<open>self.data\<close> it raises \<^verbatim>\<open>AttributeError\<close> and does neither.
\<close>

theorem unload_order:
  assumes s1: "s1 = unregister_handlers s"
    and r2: "r2 = sync_close H a s1"
    and r3: "r3 = on_close H a (snd r2)"
  shows "fst s1 = (fst s)\<lparr>funcs := []\<rparr> \<and> fs (snd s1) = fs (snd s) \<and> heap (snd s1) = heap (snd s)
     \<and> bus (snd s1) = filter (\<lambda>f. plugin_name f \<noteq> name (fst s)) (bus (snd s))
     \<and> (fst r2 \<noteq> None \<longrightarrow> unload E H a s = ([Unregister, SyncClose []], fst r2, snd r2))
     \<and> (fst r2 = None \<and> fst r3 \<noteq> None \<longrightarrow>
          unload E H a s =
            ([Unregister, SyncClose [], AsyncClose (funcs (fst (snd r2)))], fst r3, snd r3))
     \<and> (fst r2 = None \<and> fst r3 = None \<longrightarrow>
          unload E H a s =
            ([Unregister, SyncClose [], AsyncClose (funcs (fst (snd r2)))]
               @ fst (persist E (snd r3)),
             snd (persist E (snd r3)))
        \<and> (deref (snd (snd r3)) (data (fst (snd r3))) = None \<longrightarrow>
             persist E (snd r3) = ([], Some AttributeError, snd r3))
        \<and> (deref (snd (snd r3)) (data (fst (snd r3))) = Some l \<and> debug (fst (snd r3)) \<longrightarrow>
             persist E (snd r3) =
               ([TreeView (name (fst (snd r3))) (visualize_tree E (ldata l))], None, snd r3))
        \<and> (deref (snd (snd r3)) (data (fst (snd r3))) = Some l \<and> \<not> debug (fst (snd r3)) \<longrightarrow>
             persist E (snd r3) =
               ([Save],
                (case fst (loader_save E (fs (snd (snd r3))) l) of
                   None \<Rightarrow> None
                 | Some e \<Rightarrow>
                     Some (if caught_on_save e then RuntimeError (name (fst (snd r3))) e else e)),
                (fst (snd r3),
                 (snd (snd r3))\<lparr>fs := snd (loader_save E (fs (snd (snd r3))) l)\<rparr>))))
     \<and> (\<exists>xs. fst (unload E H a s) = [Unregister, SyncClose []] @ xs
         \<and> (xs = [] \<or> (\<exists>t. xs = [AsyncClose t] \<or> xs = [AsyncClose t, Save]
                           \<or> (\<exists>n ls. xs = [AsyncClose t, TreeView n ls]))))"
proof -
  obtain e2 s2 where c1: "r2 = (e2, s2)" by (cases r2)
  obtain e3 s3 where c2: "r3 = (e3, s3)" by (cases r3)
  have h2: "sync_close H a (unregister_handlers s) = (e2, s2)" using s1 r2 c1 by simp
  have h3: "on_close H a s2 = (e3, s3)" using r3 c1 c2 by simp
  have u: "fst s1 = (fst s)\<lparr>funcs := []\<rparr> \<and> fs (snd s1) = fs (snd s) \<and> heap (snd s1) = heap (snd s)
     \<and> bus (snd s1) = filter (\<lambda>f. plugin_name f \<noteq> name (fst s)) (bus (snd s))"
    using s1 by (cases s) (simp add: unregister_handlers_def)
  have a2: "fst r2 \<noteq> None \<longrightarrow> unload E H a s = ([Unregister, SyncClose []], fst r2, snd r2)"
    using h2 c1 unload_sync_raises [of H a s _ s2 E] by (cases e2) auto
  have a3: "fst r2 = None \<and> fst r3 \<noteq> None \<longrightarrow>
          unload E H a s =
            ([Unregister, SyncClose [], AsyncClose (funcs (fst (snd r2)))], fst r3, snd r3)"
    using h2 h3 c1 c2 unload_async_raises [of H a s s2 _ s3 E] by (cases e3) auto
  have a4: "fst r2 = None \<and> fst r3 = None \<longrightarrow>
          unload E H a s =
            ([Unregister, SyncClose [], AsyncClose (funcs (fst (snd r2)))]
               @ fst (persist E (snd r3)),
             snd (persist E (snd r3)))"
    using h2 h3 c1 c2 unload_returns [of H a s s2 s3 E] by auto
  have shape: "\<exists>xs. fst (unload E H a s) = [Unregister, SyncClose []] @ xs
         \<and> (xs = [] \<or> (\<exists>t. xs = [AsyncClose t] \<or> xs = [AsyncClose t, Save]
                           \<or> (\<exists>n ls. xs = [AsyncClose t, TreeView n ls])))"
    using persist_steps [of E s3] a2 a3 a4 c1 c2
    by (cases e2; cases e3) auto
  show ?thesis
    using u a2 a3 a4 shape persist_no_loader [of "snd r3" E] persist_debug [of "snd r3" l E]
      persist_save [of "snd r3" l E]
    by blast
qed

text \<open>
  \<open>Echo\<close> with \<open>ping\<close> registered and on the bus, unloaded with the instrumented hooks:
  neither hook finds a Func or a data file written early, the four steps appear in order,
  the call returns normally, and at the end the bus is empty and the data file is saved.
  Unloaded with a synchronous close hook that raises, the call ends after two steps with the
  hook's exception, the Func table emptied and nothing saved.
\<close>

theorem unload_order_witness:
  "fst (sync_close probe_hooks ([], [])
      (unregister_handlers (demo_plugin\<lparr>funcs := [ping]\<rparr>, fresh_world\<lparr>bus := [ping]\<rparr>))) = None
   \<and> fst (on_close probe_hooks ([], [])
      (snd (sync_close probe_hooks ([], [])
        (unregister_handlers (demo_plugin\<lparr>funcs := [ping]\<rparr>, fresh_world\<lparr>bus := [ping]\<rparr>))))) = None
   \<and> \<not> debug demo_plugin
   \<and> unload demo_env probe_hooks ([], [])
        (demo_plugin\<lparr>funcs := [ping]\<rparr>, fresh_world\<lparr>bus := [ping]\<rparr>)
       = ([Unregister, SyncClose [], AsyncClose [], Save], None,
          (demo_plugin,
           fresh_world\<lparr>fs := (fs fresh_world)(data_path demo_plugin \<mapsto> File ''{}'')\<rparr>))
   \<and> fst (sync_close raising_hooks ([], [])
        (unregister_handlers (demo_plugin\<lparr>funcs := [ping]\<rparr>, fresh_world))) \<noteq> None
   \<and> unload demo_env raising_hooks ([], []) (demo_plugin\<lparr>funcs := [ping]\<rparr>, fresh_world)
       = ([Unregister, SyncClose []], Some (HookError ''close failed''),
          (demo_plugin, fresh_world))"
  using unload_order [where s="(demo_plugin\<lparr>funcs := [ping]\<rparr>, fresh_world\<lparr>bus := [ping]\<rparr>)"
      and H=probe_hooks and a="([], [])" and E=demo_env and l=demo_loader, OF refl refl refl]
    unload_order [where s="(demo_plugin\<lparr>funcs := [ping]\<rparr>, fresh_world)"
      and H=raising_hooks and a="([], [])" and E=demo_env and l=demo_loader, OF refl refl refl]
  by (simp add: unregister_handlers_def probe_hooks_def raising_hooks_def deref_def
      loader_save_def parent_is_dir_def ping_def demo_plugin_def fresh_world_def
      demo_loader_def demo_env_def)

text \<open>
  Claim C1 as first stated fails: the Func table is not empty whenever a close hook runs.
  With a synchronous close hook that registers a Func, the asynchronous close hook finds
  that Func in the table, although the unregistration came first.
\<close>

theorem unload_order_counterexample:
  "unload demo_env registering_hooks ([], []) (demo_plugin\<lparr>funcs := [ping]\<rparr>, fresh_world)
     = ([Unregister, SyncClose [], AsyncClose [late]],
        Some (HookError ''torn down too early''),
        (demo_plugin\<lparr>funcs := [late]\<rparr>, fresh_world))
   \<and> [late] \<noteq> []"
  by (simp add: unload_def unregister_handlers_def registering_hooks_def probe_hooks_def
      register_user_func_def register_func_def Let_def late_def ping_def demo_plugin_def
      fresh_world_def)

text \<open>
  Claim C7, as amended. No unload call calls \<^verbatim>\<open>self.data.save()\<close> in debug mode. When
  both close hooks have returned normally and \<^verbatim>\<open>self.data\<close> is the plugin's loader, the
  save is called exactly when debug mode is off: in debug mode the call ends with the tree
  view of the loader's tree, returns normally, and leaves the plugin and the world, the
  persisted file included, as the hooks left them; outside debug mode the call ends with the
  save, the file system is what the loader's save makes of it, and a failed save is raised as
  \<^verbatim>\<open>RuntimeError\<close>. When a close hook raises, the call performs neither the save nor
  the tree view, in either mode.
\<close>

theorem debug_skips_save:
  assumes s2: "s2 = snd (sync_close H a (unregister_handlers s))"
    and s3: "s3 = snd (on_close H a s2)"
  shows "(Save \<in> set (fst (unload E H a s)) \<longrightarrow> \<not> debug (fst s3))
     \<and> (fst (sync_close H a (unregister_handlers s)) = None \<and> fst (on_close H a s2) = None
        \<and> deref (snd s3) (data (fst s3)) = Some l \<longrightarrow>
          (Save \<in> set (fst (unload E H a s))) = (\<not> debug (fst s3))
        \<and> (debug (fst s3) \<longrightarrow>
             unload E H a s =
               ([Unregister, SyncClose [], AsyncClose (funcs (fst s2)),
                 TreeView (name (fst s3)) (visualize_tree E (ldata l))], None, s3))
        \<and> (\<not> debug (fst s3) \<longrightarrow>
             fst (unload E H a s) = [Unregister, SyncClose [], AsyncClose (funcs (fst s2)), Save]
           \<and> snd (snd (unload E H a s)) =
               (fst s3, (snd s3)\<lparr>fs := snd (loader_save E (fs (snd s3)) l)\<rparr>)
           \<and> fst (snd (unload E H a s)) =
               (case fst (loader_save E (fs (snd s3)) l) of
                  None \<Rightarrow> None
                | Some e \<Rightarrow>
                    Some (if caught_on_save e then RuntimeError (name (fst s3)) e else e))))
     \<and> (fst (sync_close H a (unregister_handlers s)) \<noteq> None \<or> fst (on_close H a s2) \<noteq> None
        \<longrightarrow> Save \<notin> set (fst (unload E H a s))
          \<and> (\<forall>n ls. TreeView n ls \<notin> set (fst (unload E H a s))))"
    (is "?only \<and> (?returned \<longrightarrow> ?then) \<and> ?raised")
proof -
  obtain e2 where c1: "sync_close H a (unregister_handlers s) = (e2, s2)"
    using s2 by (cases "sync_close H a (unregister_handlers s)") simp
  obtain e3 where c2: "on_close H a s2 = (e3, s3)"
    using s3 by (cases "on_close H a s2") simp
  have only: ?only
  proof
    assume sv: "Save \<in> set (fst (unload E H a s))"
    show "\<not> debug (fst s3)"
    proof (cases e2)
      case (Some e)
      then show ?thesis using sv c1 unload_sync_raises [of H a s e s2 E] by simp
    next
      case None
      show ?thesis
      proof (cases e3)
        case (Some e)
        then show ?thesis using sv c1 c2 None unload_async_raises [of H a s s2 e s3 E] by simp
      next
        case n3: None
        then show ?thesis
          using sv c1 c2 None unload_returns [of H a s s2 s3 E]
            persist_save_only_outside_debug [of E s3]
          by simp
      qed
    qed
  qed
  have raised: ?raised
  proof (cases e2)
    case (Some e)
    then show ?thesis using c1 unload_sync_raises [of H a s e s2 E] by simp
  next
    case None
    show ?thesis
    proof (cases e3)
      case (Some e)
      then show ?thesis using c1 c2 None unload_async_raises [of H a s s2 e s3 E] by simp
    next
      case n3: None
      then show ?thesis using c1 c2 None by simp
    qed
  qed
  have "?then" if h: ?returned
  proof -
    have h1: "sync_close H a (unregister_handlers s) = (None, s2)" using h c1 by simp
    have h2: "on_close H a s2 = (None, s3)" using h c2 by simp
    have l: "deref (snd s3) (data (fst s3)) = Some l" using h by simp
    have u: "unload E H a s =
        ([Unregister, SyncClose [], AsyncClose (funcs (fst s2))] @ fst (persist E s3),
         snd (persist E s3))"
      using h1 h2 by (rule unload_returns)
    show ?thesis
    proof (cases "debug (fst s3)")
      case True
      then show ?thesis using u persist_debug [OF l True, of E] by simp
    next
      case False
      then show ?thesis using u persist_save [OF l False, of E] by simp
    qed
  qed
  with only raised show ?thesis by blast
qed

text \<open>
  \<open>Echo\<close> unloaded in debug mode ends with the tree view and leaves the world as it was;
  unloaded outside debug mode it ends with the save, which writes the data file; unloaded
  with a raising hook it does neither.
\<close>

theorem debug_skips_save_witness:
  "debug (demo_plugin\<lparr>debug := True\<rparr>)
   \<and> unload demo_env base_hooks ([], []) (demo_plugin\<lparr>debug := True\<rparr>, fresh_world)
       = ([Unregister, SyncClose [], AsyncClose [], TreeView ''Echo'' []], None,
          (demo_plugin\<lparr>debug := True\<rparr>, fresh_world))
   \<and> \<not> debug demo_plugin
   \<and> unload demo_env base_hooks ([], []) (demo_plugin, fresh_world)
       = ([Unregister, SyncClose [], AsyncClose [], Save], None,
          (demo_plugin,
           fresh_world\<lparr>fs := (fs fresh_world)(data_path demo_plugin \<mapsto> File ''{}'')\<rparr>))
   \<and> fst (sync_close raising_hooks ([], []) (unregister_handlers (demo_plugin, fresh_world)))
       = Some (HookError ''close failed'')
   \<and> Save \<notin> set (fst (unload demo_env raising_hooks ([], []) (demo_plugin, fresh_world)))"
  using debug_skips_save [where s="(demo_plugin\<lparr>debug := True\<rparr>, fresh_world)"
      and H=base_hooks and a="([], [])" and E=demo_env and l=demo_loader, OF refl refl]
    debug_skips_save [where s="(demo_plugin, fresh_world)"
      and H=base_hooks and a="([], [])" and E=demo_env and l=demo_loader, OF refl refl]
    debug_skips_save [where s="(demo_plugin, fresh_world)"
      and H=raising_hooks and a="([], [])" and E=demo_env and l=demo_loader, OF refl refl]
  by (simp add: unload_def unregister_handlers_def base_hooks_def raising_hooks_def persist_def
      deref_def data_save_def loader_save_def parent_is_dir_def Let_def demo_plugin_def
      fresh_world_def demo_loader_def demo_env_def)

text \<open>
  Claim C7 as first stated fails: it is not every unload call outside debug mode that saves.
  With debug mode off and a synchronous close hook that raises, the call ends with the
  hook's exception after two steps; nothing is saved and the data file is still missing.
\<close>

theorem debug_skips_save_counterexample:
  "\<not> debug demo_plugin
   \<and> unload demo_env raising_hooks ([], []) (demo_plugin, fresh_world)
       = ([Unregister, SyncClose []], Some (HookError ''close failed''),
          (demo_plugin, fresh_world))
   \<and> Save \<notin> set (fst (unload demo_env raising_hooks ([], []) (demo_plugin, fresh_world)))
   \<and> fs fresh_world (data_path demo_plugin) = None"
  by (simp add: unload_def unregister_handlers_def raising_hooks_def Let_def demo_plugin_def
      fresh_world_def)

end
